theory Spec2Isabelle
  imports Main
begin

section \<open>Values, exceptions and the world outside the client\<close>

text \<open>
  The client of \<^verbatim>\<open>wolfsoftware/pushover/pushover.py\<close> builds a dictionary, calls
  \<^verbatim>\<open>requests.post\<close> or \<^verbatim>\<open>requests.get\<close> once, calls
  \<^verbatim>\<open>response.raise_for_status()\<close>, wraps what the \<^verbatim>\<open>except\<close> clause catches and
  returns \<^verbatim>\<open>response.json()\<close>. The \<^verbatim>\<open>requests\<close> library and the file system are not
  part of the package: they are a parameter of the model (the \<open>world\<close>), scripted the way
  the package's tests script their mocks.
\<close>

text \<open>The values a payload dictionary holds: \<^verbatim>\<open>None\<close>, a \<^verbatim>\<open>str\<close> or an \<^verbatim>\<open>int\<close>.\<close>

datatype pyval = PNone | PStr string | PInt int

text \<open>What \<^verbatim>\<open>response.json()\<close> returns.\<close>

datatype json_value =
    JNull
  | JBool bool
  | JInt int
  | JStr string
  | JList "json_value list"
  | JDict "(string \<times> json_value) list"

text \<open>
  The exceptions that occur, each with the text \<^verbatim>\<open>str(e)\<close> gives. \<open>HTTPError\<close> and
  \<open>RequestException\<close> are the two classes the handlers name; \<open>OSError\<close> is what
  \<^verbatim>\<open>open\<close> raises; \<open>JSONDecodeError\<close> is \<^verbatim>\<open>requests.exceptions.JSONDecodeError\<close>,
  what \<^verbatim>\<open>response.json()\<close> raises; \<open>PushoverException\<close> is the package's own class
  (\<^verbatim>\<open>exceptions.py\<close>).
\<close>

datatype exn =
    HTTPError string
  | RequestException string
  | OSError string
  | JSONDecodeError string
  | PushoverException string

fun str_exn :: "exn \<Rightarrow> string" where
  "str_exn (HTTPError m) = m"
| "str_exn (RequestException m) = m"
| "str_exn (OSError m) = m"
| "str_exn (JSONDecodeError m) = m"
| "str_exn (PushoverException m) = m"

text \<open>
  The clause \<^verbatim>\<open>except (HTTPError, RequestException) as e\<close>: it catches the instances
  of \<^verbatim>\<open>RequestException\<close>. \<^verbatim>\<open>HTTPError\<close> is a subclass of it, and so is
  \<^verbatim>\<open>requests.exceptions.JSONDecodeError\<close>: a parse error raised inside a \<^verbatim>\<open>try\<close>
  block of the methods would be caught. An \<^verbatim>\<open>OSError\<close> of \<^verbatim>\<open>open\<close> and a
  \<^verbatim>\<open>PushoverException\<close> are not instances of it.
\<close>

fun caught :: "exn \<Rightarrow> bool" where
  "caught (HTTPError m) = True"
| "caught (RequestException m) = True"
| "caught (OSError m) = False"
| "caught (JSONDecodeError m) = True"
| "caught (PushoverException m) = False"

type_synonym handle = nat

type_synonym payload = "(string \<times> pyval) list"

datatype http_method = GET | POST

text \<open>
  One call of the transport: the URL and the keyword arguments \<^verbatim>\<open>params\<close>, \<^verbatim>\<open>data\<close>,
  \<^verbatim>\<open>files\<close> (\<open>None\<close> when the keyword is not passed) and \<^verbatim>\<open>timeout\<close>.
\<close>

record request =
  r_method :: http_method
  r_url :: string
  r_params :: "payload option"
  r_data :: "payload option"
  r_files :: "(string \<times> handle) list option"
  r_timeout :: int

text \<open>
  A response object: \<open>raise_for_status\<close> is \<open>Some text\<close> when the method raises
  \<^verbatim>\<open>HTTPError(text)\<close> and \<open>None\<close> when it returns; \<open>json\<close> is \<open>Inl text\<close> when the body
  does not parse and \<open>Inr v\<close> when it parses to \<open>v\<close>. The client never reads
  \<open>status_code\<close>: which statuses make \<open>raise_for_status\<close> raise is the library's business.
\<close>

record response =
  status_code :: int
  raise_for_status :: "string option"
  json :: "string + json_value"

text \<open>
  The world: \<open>builtin_open path mode\<close> is \<open>Inl text\<close> when \<^verbatim>\<open>open\<close> raises
  \<^verbatim>\<open>OSError(text)\<close> and \<open>Inr file\<close> when it returns a handle; \<open>transport req\<close> is \<open>Inl e\<close>
  when the call raises \<open>e\<close> and \<open>Inr response\<close> when it returns.
\<close>

record world =
  builtin_open :: "string \<Rightarrow> string \<Rightarrow> string + handle"
  transport :: "request \<Rightarrow> exn + response"

text \<open>What a call does to the world, in order.\<close>

datatype event =
    EvOpen string string handle
  | EvOpenFailed string string
  | EvRequest request
  | EvClose handle

type_synonym 'a outcome = "(exn + 'a) \<times> event list"

section \<open>The language constructs the methods use\<close>

text \<open>A keyword parameter with a default: \<open>None\<close> when the caller leaves it out.\<close>

type_synonym 'a kwarg = "'a option"

definition kwarg_default :: "'a \<Rightarrow> 'a kwarg \<Rightarrow> 'a" where
  "kwarg_default d k = (case k of None \<Rightarrow> d | Some v \<Rightarrow> v)"

definition opt_str :: "string option \<Rightarrow> pyval" where
  "opt_str v = (case v of None \<Rightarrow> PNone | Some s \<Rightarrow> PStr s)"

definition opt_int :: "int option \<Rightarrow> pyval" where
  "opt_int v = (case v of None \<Rightarrow> PNone | Some i \<Rightarrow> PInt i)"

text \<open>
  The request \<^verbatim>\<open>requests.post(url, data=payload, files=files, timeout=timeout)\<close> hands
  to the transport (\<open>files\<close> is \<open>None\<close> when the keyword is not passed), and the call.
\<close>

definition post_request ::
  "string \<Rightarrow> payload \<Rightarrow> (string \<times> handle) list option \<Rightarrow> int \<Rightarrow> request" where
  "post_request url payload files tmo =
     \<lparr>r_method = POST, r_url = url, r_params = None, r_data = Some payload,
      r_files = files, r_timeout = tmo\<rparr>"

definition requests_post ::
  "world \<Rightarrow> string \<Rightarrow> payload \<Rightarrow> (string \<times> handle) list option \<Rightarrow> int \<Rightarrow> response outcome" where
  "requests_post w url payload files tmo =
     (let req = post_request url payload files tmo
      in (transport w req, [EvRequest req]))"

text \<open>
  The request \<^verbatim>\<open>requests.get(url, params=params, timeout=timeout)\<close> hands to the
  transport, and the call.
\<close>

definition get_request :: "string \<Rightarrow> payload \<Rightarrow> int \<Rightarrow> request" where
  "get_request url params tmo =
     \<lparr>r_method = GET, r_url = url, r_params = Some params, r_data = None,
      r_files = None, r_timeout = tmo\<rparr>"

definition requests_get :: "world \<Rightarrow> string \<Rightarrow> payload \<Rightarrow> int \<Rightarrow> response outcome" where
  "requests_get w url params tmo =
     (let req = get_request url params tmo
      in (transport w req, [EvRequest req]))"

text \<open>
  \<^verbatim>\<open>with open(path, mode) as file: body\<close>. When \<^verbatim>\<open>open\<close> raises, the body does not
  run; when it returns, the file is closed as the block is left, whether the body
  returned or raised.
\<close>

definition with_open ::
  "world \<Rightarrow> string \<Rightarrow> string \<Rightarrow> (handle \<Rightarrow> 'a outcome) \<Rightarrow> 'a outcome" where
  "with_open w path mode body =
     (case builtin_open w path mode of
        Inl text \<Rightarrow> (Inl (OSError text), [EvOpenFailed path mode])
      | Inr file \<Rightarrow>
          (case body file of (r, tr) \<Rightarrow> (r, EvOpen path mode file # tr @ [EvClose file])))"

text \<open>\<^verbatim>\<open>response.raise_for_status()\<close>, the last statement of each \<^verbatim>\<open>try\<close> block.\<close>

definition call_raise_for_status :: "exn + response \<Rightarrow> exn + response" where
  "call_raise_for_status r =
     (case r of
        Inl e \<Rightarrow> Inl e
      | Inr resp \<Rightarrow>
          (case raise_for_status resp of
             Some text \<Rightarrow> Inl (HTTPError text)
           | None \<Rightarrow> Inr resp))"

text \<open>
  \<^verbatim>\<open>except (HTTPError, RequestException) as e: raise PushoverException(f"<prefix>{e}") from e\<close>
\<close>

definition except_raise :: "string \<Rightarrow> exn + 'a \<Rightarrow> exn + 'a" where
  "except_raise prefix r =
     (case r of
        Inl e \<Rightarrow> if caught e then Inl (PushoverException (prefix @ str_exn e)) else Inl e
      | Inr x \<Rightarrow> Inr x)"

text \<open>\<^verbatim>\<open>return response.json()\<close>, after the \<^verbatim>\<open>try\<close> statement.\<close>

definition return_json :: "exn + response \<Rightarrow> exn + json_value" where
  "return_json r =
     (case r of
        Inl e \<Rightarrow> Inl e
      | Inr resp \<Rightarrow>
          (case json resp of
             Inl text \<Rightarrow> Inl (JSONDecodeError text)
           | Inr v \<Rightarrow> Inr v))"

section \<open>The class Pushover\<close>

record pushover =
  user_key :: string
  api_token :: string
  api_url :: string
  timeout :: int

definition init :: "string \<Rightarrow> string \<Rightarrow> int kwarg \<Rightarrow> pushover" where
  "init user_key' api_token' timeout_kw =
     \<lparr>user_key = user_key', api_token = api_token',
      api_url = ''https://api.pushover.net/1/messages.json'',
      timeout = kwarg_default 10 timeout_kw\<rparr>"

text \<open>
  The dictionary \<^verbatim>\<open>payload\<close> of each of the three sending methods, from the values
  its parameters are bound to. The keys are distinct, so the list read with \<open>map_of\<close> is
  the dictionary.
\<close>

definition send_message_payload ::
  "pushover \<Rightarrow> string \<Rightarrow> string option \<Rightarrow> string option \<Rightarrow> string option \<Rightarrow> int option \<Rightarrow>
   string option \<Rightarrow> string option \<Rightarrow> payload" where
  "send_message_payload self message title url url_title priority sound device =
     [(''token'', PStr (api_token self)),
      (''user'', PStr (user_key self)),
      (''message'', PStr message),
      (''title'', opt_str title),
      (''url'', opt_str url),
      (''url_title'', opt_str url_title),
      (''priority'', opt_int priority),
      (''sound'', opt_str sound),
      (''device'', opt_str device)]"

definition send_emergency_message_payload ::
  "pushover \<Rightarrow> string \<Rightarrow> string option \<Rightarrow> string option \<Rightarrow> string option \<Rightarrow> int option \<Rightarrow>
   int option \<Rightarrow> string option \<Rightarrow> string option \<Rightarrow> payload" where
  "send_emergency_message_payload self message title url url_title retry expire sound device =
     [(''token'', PStr (api_token self)),
      (''user'', PStr (user_key self)),
      (''message'', PStr message),
      (''title'', opt_str title),
      (''url'', opt_str url),
      (''url_title'', opt_str url_title),
      (''priority'', PInt 2),
      (''retry'', opt_int retry),
      (''expire'', opt_int expire),
      (''sound'', opt_str sound),
      (''device'', opt_str device)]"

definition send_group_message_payload ::
  "pushover \<Rightarrow> string \<Rightarrow> string \<Rightarrow> string option \<Rightarrow> string option \<Rightarrow> string option \<Rightarrow>
   int option \<Rightarrow> string option \<Rightarrow> string option \<Rightarrow> payload" where
  "send_group_message_payload self message group_key title url url_title priority sound device =
     [(''token'', PStr (api_token self)),
      (''user'', PStr group_key),
      (''message'', PStr message),
      (''title'', opt_str title),
      (''url'', opt_str url),
      (''url_title'', opt_str url_title),
      (''priority'', opt_int priority),
      (''sound'', opt_str sound),
      (''device'', opt_str device)]"

text \<open>
  The four methods. Each takes the client \<open>self\<close>, the world, the required arguments and
  one \<open>kwarg\<close> for each parameter with a default, and returns what the call returns or
  raises together with what it did to the world.
\<close>

definition send_message ::
  "pushover \<Rightarrow> world \<Rightarrow> string \<Rightarrow> string option kwarg \<Rightarrow> string option kwarg \<Rightarrow>
   string option kwarg \<Rightarrow> int option kwarg \<Rightarrow> string option kwarg \<Rightarrow> string option kwarg \<Rightarrow>
   string option kwarg \<Rightarrow> json_value outcome" where
  "send_message self w message title_kw url_kw url_title_kw priority_kw sound_kw device_kw
     attachment_kw =
     (let title = kwarg_default None title_kw;
          url = kwarg_default None url_kw;
          url_title = kwarg_default None url_title_kw;
          priority = kwarg_default (Some 0) priority_kw;
          sound = kwarg_default None sound_kw;
          device = kwarg_default None device_kw;
          attachment = kwarg_default None attachment_kw;
          payload = send_message_payload self message title url url_title priority sound device;
          plain = requests_post w (api_url self) payload None (timeout self);
          (response, trace) =
            (case attachment of
               None \<Rightarrow> plain
             | Some path \<Rightarrow>
                 if path \<noteq> []
                 then with_open w path ''rb''
                        (\<lambda>file. requests_post w (api_url self) payload
                                  (Some [(''attachment'', file)]) (timeout self))
                 else plain)
      in (return_json
            (except_raise ''Failed to send message: '' (call_raise_for_status response)),
          trace))"

definition send_emergency_message ::
  "pushover \<Rightarrow> world \<Rightarrow> string \<Rightarrow> string option kwarg \<Rightarrow> string option kwarg \<Rightarrow>
   string option kwarg \<Rightarrow> int option kwarg \<Rightarrow> int option kwarg \<Rightarrow> string option kwarg \<Rightarrow>
   string option kwarg \<Rightarrow> json_value outcome" where
  "send_emergency_message self w message title_kw url_kw url_title_kw retry_kw expire_kw
     sound_kw device_kw =
     (let title = kwarg_default None title_kw;
          url = kwarg_default None url_kw;
          url_title = kwarg_default None url_title_kw;
          retry = kwarg_default (Some 30) retry_kw;
          expire = kwarg_default (Some 3600) expire_kw;
          sound = kwarg_default None sound_kw;
          device = kwarg_default None device_kw;
          payload =
            send_emergency_message_payload self message title url url_title retry expire sound
              device;
          (response, trace) = requests_post w (api_url self) payload None (timeout self)
      in (return_json
            (except_raise ''Failed to send emergency message: '' (call_raise_for_status response)),
          trace))"

definition send_group_message ::
  "pushover \<Rightarrow> world \<Rightarrow> string \<Rightarrow> string \<Rightarrow> string option kwarg \<Rightarrow> string option kwarg \<Rightarrow>
   string option kwarg \<Rightarrow> int option kwarg \<Rightarrow> string option kwarg \<Rightarrow> string option kwarg \<Rightarrow>
   string option kwarg \<Rightarrow> json_value outcome" where
  "send_group_message self w message group_key title_kw url_kw url_title_kw priority_kw
     sound_kw device_kw attachment_kw =
     (let title = kwarg_default None title_kw;
          url = kwarg_default None url_kw;
          url_title = kwarg_default None url_title_kw;
          priority = kwarg_default (Some 0) priority_kw;
          sound = kwarg_default None sound_kw;
          device = kwarg_default None device_kw;
          attachment = kwarg_default None attachment_kw;
          payload =
            send_group_message_payload self message group_key title url url_title priority sound
              device;
          plain = requests_post w (api_url self) payload None (timeout self);
          (response, trace) =
            (case attachment of
               None \<Rightarrow> plain
             | Some path \<Rightarrow>
                 if path \<noteq> []
                 then with_open w path ''rb''
                        (\<lambda>file. requests_post w (api_url self) payload
                                  (Some [(''attachment'', file)]) (timeout self))
                 else plain)
      in (return_json
            (except_raise ''Failed to send group message: '' (call_raise_for_status response)),
          trace))"

definition list_sounds :: "pushover \<Rightarrow> world \<Rightarrow> json_value outcome" where
  "list_sounds self w =
     (let sounds_url = ''https://api.pushover.net/1/sounds.json'';
          params = [(''token'', PStr (api_token self))];
          (response, trace) = requests_get w sounds_url params (timeout self)
      in (return_json
            (except_raise ''Failed to list sounds: '' (call_raise_for_status response)),
          trace))"

section \<open>Reading a trace, stating the properties\<close>

text \<open>The requests a call issued, in order.\<close>

fun requests_of :: "event list \<Rightarrow> request list" where
  "requests_of [] = []"
| "requests_of (EvRequest req # tr) = req # requests_of tr"
| "requests_of (EvOpen path mode h # tr) = requests_of tr"
| "requests_of (EvOpenFailed path mode # tr) = requests_of tr"
| "requests_of (EvClose h # tr) = requests_of tr"

text \<open>The value a request carries under a key of its \<open>data\<close>; \<open>None\<close> when the key is absent.\<close>

definition data_field :: "request \<Rightarrow> string \<Rightarrow> pyval option" where
  "data_field req k = (case r_data req of None \<Rightarrow> None | Some payload \<Rightarrow> map_of payload k)"

text \<open>
  What an optional text parameter contributes to the payload: the string the caller gave,
  and the \<^verbatim>\<open>None\<close> placeholder when the caller left the parameter out or passed
  \<^verbatim>\<open>None\<close>. Likewise for an optional number with the default \<open>n\<close>.
\<close>

definition sent_text :: "string option kwarg \<Rightarrow> pyval" where
  "sent_text k = (case k of Some (Some v) \<Rightarrow> PStr v | _ \<Rightarrow> PNone)"

definition sent_number :: "int \<Rightarrow> int option kwarg \<Rightarrow> pyval" where
  "sent_number n k = (case k of None \<Rightarrow> PInt n | Some None \<Rightarrow> PNone | Some (Some v) \<Rightarrow> PInt v)"

text \<open>
  The HTTP exchange for \<open>req\<close> fails with \<open>e\<close>: the transport raises \<open>e\<close>, an instance of
  one of the two classes of the handler, or it returns a response whose
  \<open>raise_for_status\<close> raises the \<open>HTTPError\<close> \<open>e\<close>.
\<close>

definition http_call_fails :: "world \<Rightarrow> request \<Rightarrow> exn \<Rightarrow> bool" where
  "http_call_fails w req e =
     (case transport w req of
        Inl e' \<Rightarrow> e' = e \<and> caught e
      | Inr resp \<Rightarrow>
          (case raise_for_status resp of
             Some text \<Rightarrow> e = HTTPError text
           | None \<Rightarrow> False))"

text \<open>The attachment argument names a file (a non-empty path) that \<^verbatim>\<open>open\<close> cannot open.\<close>

definition open_fails :: "world \<Rightarrow> string option kwarg \<Rightarrow> bool" where
  "open_fails w attachment_kw =
     (case kwarg_default None attachment_kw of
        None \<Rightarrow> False
      | Some path \<Rightarrow> path \<noteq> [] \<and> isl (builtin_open w path ''rb''))"

section \<open>The scenarios of the test suite\<close>

text \<open>
  The client of \<^verbatim>\<open>tests/conftest.py\<close> and worlds scripted as the tests script
  \<^verbatim>\<open>requests.post\<close>, \<^verbatim>\<open>requests.get\<close> and \<^verbatim>\<open>builtins.open\<close>: a transport that
  answers 200 with \<^verbatim>\<open>{"status": 1}\<close>, one that answers 200 with the sounds, one that
  answers 400 and whose \<open>raise_for_status\<close> raises \<^verbatim>\<open>HTTPError("Bad Request")\<close>, one
  that raises before any response, one that answers 200 with a body that is not JSON,
  and a file system in which the attachment does not exist. One more transport answers
  304 with an empty body: \<^verbatim>\<open>raise_for_status\<close> of the \<^verbatim>\<open>requests\<close> library raises
  for the statuses 400 to 599 only, so this response passes it.
\<close>

definition test_client :: pushover where
  "test_client = init ''test_user_key'' ''test_api_token'' None"

definition ok_response :: response where
  "ok_response =
     \<lparr>status_code = 200, raise_for_status = None, json = Inr (JDict [(''status'', JInt 1)])\<rparr>"

definition sounds_response :: response where
  "sounds_response =
     \<lparr>status_code = 200, raise_for_status = None,
      json = Inr (JDict [(''sounds'', JDict [(''pushover'', JStr ''Pushover (default)'')])])\<rparr>"

definition bad_request_response :: response where
  "bad_request_response =
     \<lparr>status_code = 400, raise_for_status = Some ''Bad Request'', json = Inr (JDict [])\<rparr>"

definition garbled_response :: response where
  "garbled_response =
     \<lparr>status_code = 200, raise_for_status = None, json = Inl ''Expecting value''\<rparr>"

definition not_modified_response :: response where
  "not_modified_response =
     \<lparr>status_code = 304, raise_for_status = None, json = Inl ''Expecting value''\<rparr>"

definition world_ok :: world where
  "world_ok =
     \<lparr>builtin_open = (\<lambda>path mode. Inr 3), transport = (\<lambda>req. Inr ok_response)\<rparr>"

definition world_sounds :: world where
  "world_sounds =
     \<lparr>builtin_open = (\<lambda>path mode. Inr 3), transport = (\<lambda>req. Inr sounds_response)\<rparr>"

definition world_bad_request :: world where
  "world_bad_request =
     \<lparr>builtin_open = (\<lambda>path mode. Inr 3), transport = (\<lambda>req. Inr bad_request_response)\<rparr>"

definition world_timeout :: world where
  "world_timeout =
     \<lparr>builtin_open = (\<lambda>path mode. Inr 3),
      transport = (\<lambda>req. Inl (RequestException ''Read timed out''))\<rparr>"

definition world_garbled :: world where
  "world_garbled =
     \<lparr>builtin_open = (\<lambda>path mode. Inr 3), transport = (\<lambda>req. Inr garbled_response)\<rparr>"

definition world_not_modified :: world where
  "world_not_modified =
     \<lparr>builtin_open = (\<lambda>path mode. Inr 3), transport = (\<lambda>req. Inr not_modified_response)\<rparr>"

definition world_no_file :: world where
  "world_no_file =
     \<lparr>builtin_open = (\<lambda>path mode. Inl ''No such file or directory''),
      transport = (\<lambda>req. Inr ok_response)\<rparr>"

section \<open>What the handler does with the outcome of the exchange\<close>

lemma handled_failure:
  "http_call_fails w req e \<Longrightarrow>
   return_json (except_raise prefix (call_raise_for_status (transport w req))) =
     Inl (PushoverException (prefix @ str_exn e))"
  by (cases e)
     (auto simp: http_call_fails_def call_raise_for_status_def except_raise_def return_json_def
           split: sum.splits option.splits)

lemma handled_oserror:
  "return_json (except_raise prefix (call_raise_for_status (Inl (OSError text)))) =
     Inl (OSError text)"
  by (simp add: call_raise_for_status_def except_raise_def return_json_def)

section \<open>The paths through each method\<close>

text \<open>
  \<open>send_message\<close> and \<open>send_group_message\<close> have three paths: no attachment (none
  given, \<^verbatim>\<open>None\<close> or the empty string), an attachment that opens, and an attachment
  that does not. The other two methods have one path.
\<close>

lemma send_message_plain:
  assumes "kwarg_default None a = None \<or> kwarg_default None a = Some []"
  shows "send_message self w message t u ut p s d a =
    (let req = post_request (api_url self)
                 (send_message_payload self message (kwarg_default None t)
                    (kwarg_default None u) (kwarg_default None ut) (kwarg_default (Some 0) p)
                    (kwarg_default None s) (kwarg_default None d))
                 None (timeout self)
     in (return_json (except_raise ''Failed to send message: ''
           (call_raise_for_status (transport w req))), [EvRequest req]))"
  using assms unfolding send_message_def requests_post_def Let_def
  by auto

lemma send_message_opened:
  assumes "kwarg_default None a = Some path" and "path \<noteq> []"
    and "builtin_open w path ''rb'' = Inr h"
  shows "send_message self w message t u ut p s d a =
    (let req = post_request (api_url self)
                 (send_message_payload self message (kwarg_default None t)
                    (kwarg_default None u) (kwarg_default None ut) (kwarg_default (Some 0) p)
                    (kwarg_default None s) (kwarg_default None d))
                 (Some [(''attachment'', h)]) (timeout self)
     in (return_json (except_raise ''Failed to send message: ''
           (call_raise_for_status (transport w req))),
         [EvOpen path ''rb'' h, EvRequest req, EvClose h]))"
  using assms unfolding send_message_def requests_post_def with_open_def Let_def
  by simp

lemma send_message_unopened:
  assumes "kwarg_default None a = Some path" and "path \<noteq> []"
    and "builtin_open w path ''rb'' = Inl msg"
  shows "send_message self w message t u ut p s d a =
     (Inl (OSError msg), [EvOpenFailed path ''rb''])"
  using assms unfolding send_message_def requests_post_def with_open_def Let_def
  by (simp add: handled_oserror)

lemma send_group_message_plain:
  assumes "kwarg_default None a = None \<or> kwarg_default None a = Some []"
  shows "send_group_message self w message g t u ut p s d a =
    (let req = post_request (api_url self)
                 (send_group_message_payload self message g (kwarg_default None t)
                    (kwarg_default None u) (kwarg_default None ut) (kwarg_default (Some 0) p)
                    (kwarg_default None s) (kwarg_default None d))
                 None (timeout self)
     in (return_json (except_raise ''Failed to send group message: ''
           (call_raise_for_status (transport w req))), [EvRequest req]))"
  using assms unfolding send_group_message_def requests_post_def Let_def
  by auto

lemma send_group_message_opened:
  assumes "kwarg_default None a = Some path" and "path \<noteq> []"
    and "builtin_open w path ''rb'' = Inr h"
  shows "send_group_message self w message g t u ut p s d a =
    (let req = post_request (api_url self)
                 (send_group_message_payload self message g (kwarg_default None t)
                    (kwarg_default None u) (kwarg_default None ut) (kwarg_default (Some 0) p)
                    (kwarg_default None s) (kwarg_default None d))
                 (Some [(''attachment'', h)]) (timeout self)
     in (return_json (except_raise ''Failed to send group message: ''
           (call_raise_for_status (transport w req))),
         [EvOpen path ''rb'' h, EvRequest req, EvClose h]))"
  using assms unfolding send_group_message_def requests_post_def with_open_def Let_def
  by simp

lemma send_group_message_unopened:
  assumes "kwarg_default None a = Some path" and "path \<noteq> []"
    and "builtin_open w path ''rb'' = Inl msg"
  shows "send_group_message self w message g t u ut p s d a =
     (Inl (OSError msg), [EvOpenFailed path ''rb''])"
  using assms unfolding send_group_message_def requests_post_def with_open_def Let_def
  by (simp add: handled_oserror)

lemma send_emergency_message_path:
  "send_emergency_message self w message t u ut r x s d =
    (let req = post_request (api_url self)
                 (send_emergency_message_payload self message (kwarg_default None t)
                    (kwarg_default None u) (kwarg_default None ut) (kwarg_default (Some 30) r)
                    (kwarg_default (Some 3600) x) (kwarg_default None s) (kwarg_default None d))
                 None (timeout self)
     in (return_json (except_raise ''Failed to send emergency message: ''
           (call_raise_for_status (transport w req))), [EvRequest req]))"
  unfolding send_emergency_message_def requests_post_def Let_def
  by simp

lemma list_sounds_path:
  "list_sounds self w =
    (let req = get_request ''https://api.pushover.net/1/sounds.json''
                 [(''token'', PStr (api_token self))] (timeout self)
     in (return_json (except_raise ''Failed to list sounds: ''
           (call_raise_for_status (transport w req))), [EvRequest req]))"
  unfolding list_sounds_def requests_get_def Let_def
  by simp

text \<open>The three paths are all there is, and on each the trace has one of three shapes.\<close>

lemma attachment_cases:
  obtains (plain) "kwarg_default None a = None \<or> kwarg_default None a = Some []"
  | (opened) path h where "kwarg_default None a = Some path" and "path \<noteq> []"
      and "builtin_open w path ''rb'' = Inr h"
  | (unopened) path msg where "kwarg_default None a = Some path" and "path \<noteq> []"
      and "builtin_open w path ''rb'' = Inl msg"
proof (cases "kwarg_default None a")
  case None
  then show ?thesis using plain by simp
next
  case (Some path)
  show ?thesis
  proof (cases "path = []")
    case True
    with Some show ?thesis using plain by simp
  next
    case False
    with Some show ?thesis using opened unopened by (cases "builtin_open w path ''rb''") auto
  qed
qed

text \<open>The requests of the test scenarios: without an attachment each call issues one.\<close>

lemma send_message_issues_one:
  "\<exists>req. requests_of (snd (send_message self w message t u ut p s d None)) = [req]"
  by (simp add: send_message_plain kwarg_default_def Let_def)

lemma send_group_message_issues_one:
  "\<exists>req. requests_of (snd (send_group_message self w message g t u ut p s d None)) = [req]"
  by (simp add: send_group_message_plain kwarg_default_def Let_def)

lemma send_emergency_message_issues_one:
  "\<exists>req. requests_of (snd (send_emergency_message self w message t u ut r x s d)) = [req]"
  by (simp add: send_emergency_message_path Let_def)

lemma list_sounds_issues_one:
  "\<exists>req. requests_of (snd (list_sounds self w)) = [req]"
  by (simp add: list_sounds_path Let_def)

text \<open>
  Unless the attachment cannot be opened, a call issues exactly one request, and what it
  returns or raises is what the handler and \<open>return_json\<close> make of the transport's
  answer to that request.
\<close>

lemma send_message_outcome:
  assumes "\<not> open_fails w a"
  shows "\<exists>req. requests_of (snd (send_message self w message t u ut p s d a)) = [req]
     \<and> fst (send_message self w message t u ut p s d a) =
         return_json (except_raise ''Failed to send message: ''
           (call_raise_for_status (transport w req)))"
proof (cases rule: attachment_cases [where a = a and w = w])
  case plain
  show ?thesis by (simp add: send_message_plain [OF plain] Let_def)
next
  case (opened path h)
  show ?thesis by (simp add: send_message_opened [OF opened] Let_def)
next
  case (unopened path msg)
  then have "open_fails w a"
    by (simp add: open_fails_def)
  with assms show ?thesis by simp
qed

lemma send_group_message_outcome:
  assumes "\<not> open_fails w a"
  shows "\<exists>req. requests_of (snd (send_group_message self w message g t u ut p s d a)) = [req]
     \<and> fst (send_group_message self w message g t u ut p s d a) =
         return_json (except_raise ''Failed to send group message: ''
           (call_raise_for_status (transport w req)))"
proof (cases rule: attachment_cases [where a = a and w = w])
  case plain
  show ?thesis by (simp add: send_group_message_plain [OF plain] Let_def)
next
  case (opened path h)
  show ?thesis by (simp add: send_group_message_opened [OF opened] Let_def)
next
  case (unopened path msg)
  then have "open_fails w a"
    by (simp add: open_fails_def)
  with assms show ?thesis by simp
qed

lemma send_emergency_message_outcome:
  "\<exists>req. requests_of (snd (send_emergency_message self w message t u ut r x s d)) = [req]
     \<and> fst (send_emergency_message self w message t u ut r x s d) =
         return_json (except_raise ''Failed to send emergency message: ''
           (call_raise_for_status (transport w req)))"
  by (simp add: send_emergency_message_path Let_def)

lemma list_sounds_outcome:
  "\<exists>req. requests_of (snd (list_sounds self w)) = [req]
     \<and> fst (list_sounds self w) =
         return_json (except_raise ''Failed to list sounds: ''
           (call_raise_for_status (transport w req)))"
  by (simp add: list_sounds_path Let_def)

lemma failure_of_outcome:
  assumes "res = return_json (except_raise prefix (call_raise_for_status (transport w req)))"
  shows "\<forall>e. http_call_fails w req e \<longrightarrow> res = Inl (PushoverException (prefix @ str_exn e))"
  by (simp add: assms handled_failure)

lemma success_of_outcome:
  assumes "res = return_json (except_raise prefix (call_raise_for_status (transport w req)))"
  shows "\<forall>resp. transport w req = Inr resp \<and> raise_for_status resp = None \<longrightarrow>
     res = (case json resp of Inl reason \<Rightarrow> Inl (JSONDecodeError reason) | Inr v \<Rightarrow> Inr v)"
  by (simp add: assms call_raise_for_status_def except_raise_def return_json_def)

text \<open>The calls of the test scenarios without an attachment: the one request each issues.\<close>

lemma no_attachment_opens: "\<not> open_fails w None"
  by (simp add: open_fails_def kwarg_default_def)

lemma test_send_message_request:
  "requests_of (snd (send_message test_client w ''Test message''
      None None None None None None None)) =
     [post_request ''https://api.pushover.net/1/messages.json''
        (send_message_payload test_client ''Test message'' None None None (Some 0) None None)
        None 10]"
  by (simp add: send_message_plain kwarg_default_def Let_def test_client_def init_def)

lemma test_send_emergency_message_request:
  "requests_of (snd (send_emergency_message test_client w ''Emergency message''
      None None None None None None None)) =
     [post_request ''https://api.pushover.net/1/messages.json''
        (send_emergency_message_payload test_client ''Emergency message'' None None None
           (Some 30) (Some 3600) None None)
        None 10]"
  by (simp add: send_emergency_message_path kwarg_default_def Let_def test_client_def init_def)

lemma test_send_group_message_request:
  "requests_of (snd (send_group_message test_client w ''Group message'' ''test_group_key''
      None None None None None None None)) =
     [post_request ''https://api.pushover.net/1/messages.json''
        (send_group_message_payload test_client ''Group message'' ''test_group_key'' None None
           None (Some 0) None None)
        None 10]"
  by (simp add: send_group_message_plain kwarg_default_def Let_def test_client_def init_def)

lemma test_list_sounds_request:
  "requests_of (snd (list_sounds test_client w)) =
     [get_request ''https://api.pushover.net/1/sounds.json''
        [(''token'', PStr ''test_api_token'')] 10]"
  by (simp add: list_sounds_path Let_def test_client_def init_def kwarg_default_def)

section \<open>Failures of the HTTP exchange\<close>

text \<open>
  Claim C1, amended. Each of the four operations issues exactly one request
  (\<open>send_message\<close> and \<open>send_group_message\<close> unless the attachment cannot be opened),
  and when the HTTP call for that request raises a transport-level failure (an exception
  the handler catches), or returns a response whose \<open>raise_for_status\<close> raises its HTTP
  error, the operation fails with a \<open>PushoverException\<close> whose message is exactly the
  operation's prefix followed by the string form of that failure, and with nothing else.
  The client does not look at the status itself: a status outside 2xx that
  \<open>raise_for_status\<close> lets pass is handled as a success.
\<close>

theorem http_failure_raises_pushover_exception:
  "(\<not> open_fails w a \<longrightarrow>
      (\<exists>req. requests_of (snd (send_message self w message t u ut p s d a)) = [req]
         \<and> (\<forall>e. http_call_fails w req e \<longrightarrow>
               fst (send_message self w message t u ut p s d a) =
                 Inl (PushoverException (''Failed to send message: '' @ str_exn e)))))
   \<and> (\<exists>req. requests_of (snd (send_emergency_message self w message t u ut r x s d)) = [req]
         \<and> (\<forall>e. http_call_fails w req e \<longrightarrow>
               fst (send_emergency_message self w message t u ut r x s d) =
                 Inl (PushoverException (''Failed to send emergency message: '' @ str_exn e))))
   \<and> (\<not> open_fails w a \<longrightarrow>
      (\<exists>req. requests_of (snd (send_group_message self w message g t u ut p s d a)) = [req]
         \<and> (\<forall>e. http_call_fails w req e \<longrightarrow>
               fst (send_group_message self w message g t u ut p s d a) =
                 Inl (PushoverException (''Failed to send group message: '' @ str_exn e)))))
   \<and> (\<exists>req. requests_of (snd (list_sounds self w)) = [req]
         \<and> (\<forall>e. http_call_fails w req e \<longrightarrow>
               fst (list_sounds self w) =
                 Inl (PushoverException (''Failed to list sounds: '' @ str_exn e))))"
proof (intro conjI impI)
  assume "\<not> open_fails w a"
  from send_message_outcome [OF this] obtain req
    where "requests_of (snd (send_message self w message t u ut p s d a)) = [req]"
      and "fst (send_message self w message t u ut p s d a) =
         return_json (except_raise ''Failed to send message: ''
           (call_raise_for_status (transport w req)))"
    by blast
  then show "\<exists>req. requests_of (snd (send_message self w message t u ut p s d a)) = [req]
         \<and> (\<forall>e. http_call_fails w req e \<longrightarrow>
               fst (send_message self w message t u ut p s d a) =
                 Inl (PushoverException (''Failed to send message: '' @ str_exn e)))"
    using failure_of_outcome by blast
next
  from send_emergency_message_outcome obtain req
    where "requests_of (snd (send_emergency_message self w message t u ut r x s d)) = [req]"
      and "fst (send_emergency_message self w message t u ut r x s d) =
         return_json (except_raise ''Failed to send emergency message: ''
           (call_raise_for_status (transport w req)))"
    by blast
  then show "\<exists>req. requests_of (snd (send_emergency_message self w message t u ut r x s d)) =
           [req]
         \<and> (\<forall>e. http_call_fails w req e \<longrightarrow>
               fst (send_emergency_message self w message t u ut r x s d) =
                 Inl (PushoverException (''Failed to send emergency message: '' @ str_exn e)))"
    using failure_of_outcome by blast
next
  assume "\<not> open_fails w a"
  from send_group_message_outcome [OF this] obtain req
    where "requests_of (snd (send_group_message self w message g t u ut p s d a)) = [req]"
      and "fst (send_group_message self w message g t u ut p s d a) =
         return_json (except_raise ''Failed to send group message: ''
           (call_raise_for_status (transport w req)))"
    by blast
  then show "\<exists>req. requests_of (snd (send_group_message self w message g t u ut p s d a)) = [req]
         \<and> (\<forall>e. http_call_fails w req e \<longrightarrow>
               fst (send_group_message self w message g t u ut p s d a) =
                 Inl (PushoverException (''Failed to send group message: '' @ str_exn e)))"
    using failure_of_outcome by blast
next
  from list_sounds_outcome obtain req
    where "requests_of (snd (list_sounds self w)) = [req]"
      and "fst (list_sounds self w) =
         return_json (except_raise ''Failed to list sounds: ''
           (call_raise_for_status (transport w req)))"
    by blast
  then show "\<exists>req. requests_of (snd (list_sounds self w)) = [req]
         \<and> (\<forall>e. http_call_fails w req e \<longrightarrow>
               fst (list_sounds self w) =
                 Inl (PushoverException (''Failed to list sounds: '' @ str_exn e)))"
    using failure_of_outcome by blast
qed

theorem http_failure_raises_pushover_exception_witness:
  "(requests_of (snd (send_message test_client world_bad_request ''Test message''
        None None None None None None None)) =
      [post_request ''https://api.pushover.net/1/messages.json''
         (send_message_payload test_client ''Test message'' None None None (Some 0) None None)
         None 10]
    \<and> fst (send_message test_client world_bad_request ''Test message''
        None None None None None None None) =
      Inl (PushoverException ''Failed to send message: Bad Request''))
   \<and> (requests_of (snd (send_emergency_message test_client world_bad_request
        ''Emergency message'' None None None None None None None)) =
      [post_request ''https://api.pushover.net/1/messages.json''
         (send_emergency_message_payload test_client ''Emergency message'' None None None
            (Some 30) (Some 3600) None None)
         None 10]
    \<and> fst (send_emergency_message test_client world_bad_request ''Emergency message''
        None None None None None None None) =
      Inl (PushoverException ''Failed to send emergency message: Bad Request''))
   \<and> (requests_of (snd (send_group_message test_client world_bad_request ''Group message''
        ''test_group_key'' None None None None None None None)) =
      [post_request ''https://api.pushover.net/1/messages.json''
         (send_group_message_payload test_client ''Group message'' ''test_group_key'' None None
            None (Some 0) None None)
         None 10]
    \<and> fst (send_group_message test_client world_bad_request ''Group message''
        ''test_group_key'' None None None None None None None) =
      Inl (PushoverException ''Failed to send group message: Bad Request''))
   \<and> (requests_of (snd (list_sounds test_client world_timeout)) =
      [get_request ''https://api.pushover.net/1/sounds.json''
         [(''token'', PStr ''test_api_token'')] 10]
    \<and> fst (list_sounds test_client world_timeout) =
      Inl (PushoverException ''Failed to list sounds: Read timed out''))"
proof -
  have bad: "http_call_fails world_bad_request req (HTTPError ''Bad Request'')" for req
    by (simp add: http_call_fails_def world_bad_request_def bad_request_response_def)
  have down: "http_call_fails world_timeout req (RequestException ''Read timed out'')" for req
    by (simp add: http_call_fails_def world_timeout_def)
  note claim_bad = http_failure_raises_pushover_exception [where w = world_bad_request
      and self = test_client and a = None and t = None and u = None and ut = None and p = None
      and s = None and d = None and r = None and x = None and g = "''test_group_key''"]
  have "fst (send_message test_client world_bad_request ''Test message''
        None None None None None None None) =
      Inl (PushoverException ''Failed to send message: Bad Request'')"
    using claim_bad [where message = "''Test message''"] no_attachment_opens bad
    by fastforce
  moreover have "fst (send_emergency_message test_client world_bad_request
        ''Emergency message'' None None None None None None None) =
      Inl (PushoverException ''Failed to send emergency message: Bad Request'')"
    using claim_bad [where message = "''Emergency message''"] bad
    by fastforce
  moreover have "fst (send_group_message test_client world_bad_request ''Group message''
        ''test_group_key'' None None None None None None None) =
      Inl (PushoverException ''Failed to send group message: Bad Request'')"
    using claim_bad [where message = "''Group message''"] no_attachment_opens bad
    by fastforce
  moreover have "fst (list_sounds test_client world_timeout) =
      Inl (PushoverException ''Failed to list sounds: Read timed out'')"
    using http_failure_raises_pushover_exception [where w = world_timeout
        and self = test_client] down
    by fastforce
  ultimately show ?thesis
    by (simp only: test_send_message_request test_send_emergency_message_request
          test_send_group_message_request test_list_sounds_request simp_thms)
qed

text \<open>
  Claim C1 as it was stated, for every status outside 2xx, fails for a status that
  \<open>raise_for_status\<close> lets pass: on the answer 304 with an empty body the call goes on
  to \<^verbatim>\<open>response.json()\<close>, and what it raises is the parse error, not a
  \<open>PushoverException\<close>.
\<close>

theorem status_304_is_not_wrapped:
  "status_code not_modified_response = 304
   \<and> fst (send_message test_client world_not_modified ''Test message''
          None None None None None None None) = Inl (JSONDecodeError ''Expecting value'')
   \<and> fst (list_sounds test_client world_not_modified) =
        Inl (JSONDecodeError ''Expecting value'')"
  by (simp add: send_message_plain kwarg_default_def list_sounds_path Let_def
        world_not_modified_def not_modified_response_def call_raise_for_status_def
        except_raise_def return_json_def)

section \<open>Successful exchanges\<close>

text \<open>
  Claim C2. Each of the four operations issues exactly one request (\<open>send_message\<close>
  and \<open>send_group_message\<close> unless the attachment cannot be opened), and when the HTTP
  call for that request returns a response whose status check passes and whose body
  parses to the JSON value \<open>B\<close>, the operation returns \<open>B\<close> itself, unchanged.
\<close>

theorem success_returns_parsed_body:
  "(\<not> open_fails w a \<longrightarrow>
      (\<exists>req. requests_of (snd (send_message self w message t u ut p s d a)) = [req]
         \<and> (\<forall>resp B. transport w req = Inr resp \<and> raise_for_status resp = None
                 \<and> json resp = Inr B \<longrightarrow>
               fst (send_message self w message t u ut p s d a) = Inr B)))
   \<and> (\<exists>req. requests_of (snd (send_emergency_message self w message t u ut r x s d)) = [req]
         \<and> (\<forall>resp B. transport w req = Inr resp \<and> raise_for_status resp = None
                 \<and> json resp = Inr B \<longrightarrow>
               fst (send_emergency_message self w message t u ut r x s d) = Inr B))
   \<and> (\<not> open_fails w a \<longrightarrow>
      (\<exists>req. requests_of (snd (send_group_message self w message g t u ut p s d a)) = [req]
         \<and> (\<forall>resp B. transport w req = Inr resp \<and> raise_for_status resp = None
                 \<and> json resp = Inr B \<longrightarrow>
               fst (send_group_message self w message g t u ut p s d a) = Inr B)))
   \<and> (\<exists>req. requests_of (snd (list_sounds self w)) = [req]
         \<and> (\<forall>resp B. transport w req = Inr resp \<and> raise_for_status resp = None
                 \<and> json resp = Inr B \<longrightarrow>
               fst (list_sounds self w) = Inr B))"
proof (intro conjI impI)
  assume "\<not> open_fails w a"
  from send_message_outcome [OF this] obtain req
    where "requests_of (snd (send_message self w message t u ut p s d a)) = [req]"
      and "fst (send_message self w message t u ut p s d a) =
         return_json (except_raise ''Failed to send message: ''
           (call_raise_for_status (transport w req)))"
    by blast
  then show "\<exists>req. requests_of (snd (send_message self w message t u ut p s d a)) = [req]
         \<and> (\<forall>resp B. transport w req = Inr resp \<and> raise_for_status resp = None
                 \<and> json resp = Inr B \<longrightarrow>
               fst (send_message self w message t u ut p s d a) = Inr B)"
    using success_of_outcome by fastforce
next
  from send_emergency_message_outcome obtain req
    where "requests_of (snd (send_emergency_message self w message t u ut r x s d)) = [req]"
      and "fst (send_emergency_message self w message t u ut r x s d) =
         return_json (except_raise ''Failed to send emergency message: ''
           (call_raise_for_status (transport w req)))"
    by blast
  then show "\<exists>req. requests_of (snd (send_emergency_message self w message t u ut r x s d)) =
           [req]
         \<and> (\<forall>resp B. transport w req = Inr resp \<and> raise_for_status resp = None
                 \<and> json resp = Inr B \<longrightarrow>
               fst (send_emergency_message self w message t u ut r x s d) = Inr B)"
    using success_of_outcome by fastforce
next
  assume "\<not> open_fails w a"
  from send_group_message_outcome [OF this] obtain req
    where "requests_of (snd (send_group_message self w message g t u ut p s d a)) = [req]"
      and "fst (send_group_message self w message g t u ut p s d a) =
         return_json (except_raise ''Failed to send group message: ''
           (call_raise_for_status (transport w req)))"
    by blast
  then show "\<exists>req. requests_of (snd (send_group_message self w message g t u ut p s d a)) = [req]
         \<and> (\<forall>resp B. transport w req = Inr resp \<and> raise_for_status resp = None
                 \<and> json resp = Inr B \<longrightarrow>
               fst (send_group_message self w message g t u ut p s d a) = Inr B)"
    using success_of_outcome by fastforce
next
  from list_sounds_outcome obtain req
    where "requests_of (snd (list_sounds self w)) = [req]"
      and "fst (list_sounds self w) =
         return_json (except_raise ''Failed to list sounds: ''
           (call_raise_for_status (transport w req)))"
    by blast
  then show "\<exists>req. requests_of (snd (list_sounds self w)) = [req]
         \<and> (\<forall>resp B. transport w req = Inr resp \<and> raise_for_status resp = None
                 \<and> json resp = Inr B \<longrightarrow>
               fst (list_sounds self w) = Inr B)"
    using success_of_outcome by fastforce
qed

theorem success_returns_parsed_body_witness:
  "(requests_of (snd (send_message test_client world_ok ''Test message''
        None None None None None None None)) =
      [post_request ''https://api.pushover.net/1/messages.json''
         (send_message_payload test_client ''Test message'' None None None (Some 0) None None)
         None 10]
    \<and> fst (send_message test_client world_ok ''Test message''
        None None None None None None None) = Inr (JDict [(''status'', JInt 1)]))
   \<and> (requests_of (snd (send_emergency_message test_client world_ok ''Emergency message''
        None None None None None None None)) =
      [post_request ''https://api.pushover.net/1/messages.json''
         (send_emergency_message_payload test_client ''Emergency message'' None None None
            (Some 30) (Some 3600) None None)
         None 10]
    \<and> fst (send_emergency_message test_client world_ok ''Emergency message''
        None None None None None None None) = Inr (JDict [(''status'', JInt 1)]))
   \<and> (requests_of (snd (send_group_message test_client world_ok ''Group message''
        ''test_group_key'' None None None None None None None)) =
      [post_request ''https://api.pushover.net/1/messages.json''
         (send_group_message_payload test_client ''Group message'' ''test_group_key'' None None
            None (Some 0) None None)
         None 10]
    \<and> fst (send_group_message test_client world_ok ''Group message'' ''test_group_key''
        None None None None None None None) = Inr (JDict [(''status'', JInt 1)]))
   \<and> (requests_of (snd (list_sounds test_client world_sounds)) =
      [get_request ''https://api.pushover.net/1/sounds.json''
         [(''token'', PStr ''test_api_token'')] 10]
    \<and> fst (list_sounds test_client world_sounds) =
      Inr (JDict [(''sounds'', JDict [(''pushover'', JStr ''Pushover (default)'')])]))"
proof -
  have ok: "transport world_ok req = Inr ok_response \<and> raise_for_status ok_response = None
      \<and> json ok_response = Inr (JDict [(''status'', JInt 1)])" for req
    by (simp add: world_ok_def ok_response_def)
  have sounds: "transport world_sounds req = Inr sounds_response
      \<and> raise_for_status sounds_response = None
      \<and> json sounds_response =
          Inr (JDict [(''sounds'', JDict [(''pushover'', JStr ''Pushover (default)'')])])" for req
    by (simp add: world_sounds_def sounds_response_def)
  note claim_ok = success_returns_parsed_body [where w = world_ok
      and self = test_client and a = None and t = None and u = None and ut = None and p = None
      and s = None and d = None and r = None and x = None and g = "''test_group_key''"]
  have "fst (send_message test_client world_ok ''Test message''
        None None None None None None None) = Inr (JDict [(''status'', JInt 1)])"
    using claim_ok [where message = "''Test message''"] no_attachment_opens ok
    by fastforce
  moreover have "fst (send_emergency_message test_client world_ok ''Emergency message''
        None None None None None None None) = Inr (JDict [(''status'', JInt 1)])"
    using claim_ok [where message = "''Emergency message''"] ok
    by fastforce
  moreover have "fst (send_group_message test_client world_ok ''Group message''
        ''test_group_key'' None None None None None None None) =
      Inr (JDict [(''status'', JInt 1)])"
    using claim_ok [where message = "''Group message''"] no_attachment_opens ok
    by fastforce
  moreover have "fst (list_sounds test_client world_sounds) =
      Inr (JDict [(''sounds'', JDict [(''pushover'', JStr ''Pushover (default)'')])])"
    using success_returns_parsed_body [where w = world_sounds and self = test_client] sounds
    by fastforce
  ultimately show ?thesis
    by (simp only: test_send_message_request test_send_emergency_message_request
          test_send_group_message_request test_list_sounds_request simp_thms)
qed

text \<open>
  Claim C6. Each of the four operations issues exactly one request (\<open>send_message\<close>
  and \<open>send_group_message\<close> unless the attachment cannot be opened), and when the HTTP
  call for that request returns a response whose status check passes but whose body does
  not parse as JSON, the parse error reaches the caller as it is. It is not turned into
  a \<open>PushoverException\<close>, although it is of a class the handler catches:
  \<^verbatim>\<open>response.json()\<close> is called after the \<^verbatim>\<open>try\<close> statement.
\<close>

theorem unparsable_body_raises_unwrapped:
  "(\<not> open_fails w a \<longrightarrow>
      (\<exists>req. requests_of (snd (send_message self w message t u ut p s d a)) = [req]
         \<and> (\<forall>resp reason. transport w req = Inr resp \<and> raise_for_status resp = None
                 \<and> json resp = Inl reason \<longrightarrow>
               fst (send_message self w message t u ut p s d a) =
                 Inl (JSONDecodeError reason))))
   \<and> (\<exists>req. requests_of (snd (send_emergency_message self w message t u ut r x s d)) = [req]
         \<and> (\<forall>resp reason. transport w req = Inr resp \<and> raise_for_status resp = None
                 \<and> json resp = Inl reason \<longrightarrow>
               fst (send_emergency_message self w message t u ut r x s d) =
                 Inl (JSONDecodeError reason)))
   \<and> (\<not> open_fails w a \<longrightarrow>
      (\<exists>req. requests_of (snd (send_group_message self w message g t u ut p s d a)) = [req]
         \<and> (\<forall>resp reason. transport w req = Inr resp \<and> raise_for_status resp = None
                 \<and> json resp = Inl reason \<longrightarrow>
               fst (send_group_message self w message g t u ut p s d a) =
                 Inl (JSONDecodeError reason))))
   \<and> (\<exists>req. requests_of (snd (list_sounds self w)) = [req]
         \<and> (\<forall>resp reason. transport w req = Inr resp \<and> raise_for_status resp = None
                 \<and> json resp = Inl reason \<longrightarrow>
               fst (list_sounds self w) = Inl (JSONDecodeError reason)))
   \<and> caught (JSONDecodeError reason')"
proof (intro conjI impI)
  assume "\<not> open_fails w a"
  from send_message_outcome [OF this] obtain req
    where "requests_of (snd (send_message self w message t u ut p s d a)) = [req]"
      and "fst (send_message self w message t u ut p s d a) =
         return_json (except_raise ''Failed to send message: ''
           (call_raise_for_status (transport w req)))"
    by blast
  then show "\<exists>req. requests_of (snd (send_message self w message t u ut p s d a)) = [req]
         \<and> (\<forall>resp reason. transport w req = Inr resp \<and> raise_for_status resp = None
                 \<and> json resp = Inl reason \<longrightarrow>
               fst (send_message self w message t u ut p s d a) =
                 Inl (JSONDecodeError reason))"
    using success_of_outcome by fastforce
next
  from send_emergency_message_outcome obtain req
    where "requests_of (snd (send_emergency_message self w message t u ut r x s d)) = [req]"
      and "fst (send_emergency_message self w message t u ut r x s d) =
         return_json (except_raise ''Failed to send emergency message: ''
           (call_raise_for_status (transport w req)))"
    by blast
  then show "\<exists>req. requests_of (snd (send_emergency_message self w message t u ut r x s d)) =
           [req]
         \<and> (\<forall>resp reason. transport w req = Inr resp \<and> raise_for_status resp = None
                 \<and> json resp = Inl reason \<longrightarrow>
               fst (send_emergency_message self w message t u ut r x s d) =
                 Inl (JSONDecodeError reason))"
    using success_of_outcome by fastforce
next
  assume "\<not> open_fails w a"
  from send_group_message_outcome [OF this] obtain req
    where "requests_of (snd (send_group_message self w message g t u ut p s d a)) = [req]"
      and "fst (send_group_message self w message g t u ut p s d a) =
         return_json (except_raise ''Failed to send group message: ''
           (call_raise_for_status (transport w req)))"
    by blast
  then show "\<exists>req. requests_of (snd (send_group_message self w message g t u ut p s d a)) = [req]
         \<and> (\<forall>resp reason. transport w req = Inr resp \<and> raise_for_status resp = None
                 \<and> json resp = Inl reason \<longrightarrow>
               fst (send_group_message self w message g t u ut p s d a) =
                 Inl (JSONDecodeError reason))"
    using success_of_outcome by fastforce
next
  from list_sounds_outcome obtain req
    where "requests_of (snd (list_sounds self w)) = [req]"
      and "fst (list_sounds self w) =
         return_json (except_raise ''Failed to list sounds: ''
           (call_raise_for_status (transport w req)))"
    by blast
  then show "\<exists>req. requests_of (snd (list_sounds self w)) = [req]
         \<and> (\<forall>resp reason. transport w req = Inr resp \<and> raise_for_status resp = None
                 \<and> json resp = Inl reason \<longrightarrow>
               fst (list_sounds self w) = Inl (JSONDecodeError reason))"
    using success_of_outcome by fastforce
next
  show "caught (JSONDecodeError reason')"
    by simp
qed

theorem unparsable_body_raises_unwrapped_witness:
  "(requests_of (snd (send_message test_client world_garbled ''Test message''
        None None None None None None None)) =
      [post_request ''https://api.pushover.net/1/messages.json''
         (send_message_payload test_client ''Test message'' None None None (Some 0) None None)
         None 10]
    \<and> fst (send_message test_client world_garbled ''Test message''
        None None None None None None None) = Inl (JSONDecodeError ''Expecting value''))
   \<and> (requests_of (snd (send_emergency_message test_client world_garbled ''Emergency message''
        None None None None None None None)) =
      [post_request ''https://api.pushover.net/1/messages.json''
         (send_emergency_message_payload test_client ''Emergency message'' None None None
            (Some 30) (Some 3600) None None)
         None 10]
    \<and> fst (send_emergency_message test_client world_garbled ''Emergency message''
        None None None None None None None) = Inl (JSONDecodeError ''Expecting value''))
   \<and> (requests_of (snd (send_group_message test_client world_garbled ''Group message''
        ''test_group_key'' None None None None None None None)) =
      [post_request ''https://api.pushover.net/1/messages.json''
         (send_group_message_payload test_client ''Group message'' ''test_group_key'' None None
            None (Some 0) None None)
         None 10]
    \<and> fst (send_group_message test_client world_garbled ''Group message'' ''test_group_key''
        None None None None None None None) = Inl (JSONDecodeError ''Expecting value''))
   \<and> (requests_of (snd (list_sounds test_client world_garbled)) =
      [get_request ''https://api.pushover.net/1/sounds.json''
         [(''token'', PStr ''test_api_token'')] 10]
    \<and> fst (list_sounds test_client world_garbled) = Inl (JSONDecodeError ''Expecting value''))"
proof -
  have garbled: "transport world_garbled req = Inr garbled_response
      \<and> raise_for_status garbled_response = None
      \<and> json garbled_response = Inl ''Expecting value''" for req
    by (simp add: world_garbled_def garbled_response_def)
  note claim_garbled = unparsable_body_raises_unwrapped [where w = world_garbled
      and self = test_client and a = None and t = None and u = None and ut = None and p = None
      and s = None and d = None and r = None and x = None and g = "''test_group_key''"]
  have "fst (send_message test_client world_garbled ''Test message''
        None None None None None None None) = Inl (JSONDecodeError ''Expecting value'')"
    using claim_garbled [where message = "''Test message''"] no_attachment_opens garbled
    by fastforce
  moreover have "fst (send_emergency_message test_client world_garbled ''Emergency message''
        None None None None None None None) = Inl (JSONDecodeError ''Expecting value'')"
    using claim_garbled [where message = "''Emergency message''"] garbled
    by fastforce
  moreover have "fst (send_group_message test_client world_garbled ''Group message''
        ''test_group_key'' None None None None None None None) =
      Inl (JSONDecodeError ''Expecting value'')"
    using claim_garbled [where message = "''Group message''"] no_attachment_opens garbled
    by fastforce
  moreover have "fst (list_sounds test_client world_garbled) =
      Inl (JSONDecodeError ''Expecting value'')"
    using claim_garbled [where message = "''Test message''"] garbled
    by fastforce
  ultimately show ?thesis
    by (simp only: test_send_message_request test_send_emergency_message_request
          test_send_group_message_request test_list_sounds_request simp_thms)
qed

section \<open>The payload\<close>

lemma opt_str_kwarg: "opt_str (kwarg_default None k) = sent_text k"
  by (simp add: opt_str_def kwarg_default_def sent_text_def split: option.split)

lemma opt_int_kwarg: "opt_int (kwarg_default (Some n) k) = sent_number n k"
  by (simp add: opt_int_def kwarg_default_def sent_number_def split: option.split)

lemma send_message_request_data:
  assumes "req \<in> set (requests_of (snd (send_message self w message t u ut p s d a)))"
  shows "r_data req =
     Some (send_message_payload self message (kwarg_default None t) (kwarg_default None u)
       (kwarg_default None ut) (kwarg_default (Some 0) p) (kwarg_default None s)
       (kwarg_default None d))"
proof (cases rule: attachment_cases [where a = a and w = w])
  case plain
  from assms show ?thesis
    by (simp add: send_message_plain [OF plain] Let_def post_request_def)
next
  case (opened path h)
  from assms show ?thesis
    by (simp add: send_message_opened [OF opened] Let_def post_request_def)
next
  case (unopened path msg)
  from assms show ?thesis by (simp add: send_message_unopened [OF unopened])
qed

lemma send_group_message_request_data:
  assumes "req \<in> set (requests_of (snd (send_group_message self w message g t u ut p s d a)))"
  shows "r_data req =
     Some (send_group_message_payload self message g (kwarg_default None t)
       (kwarg_default None u) (kwarg_default None ut) (kwarg_default (Some 0) p)
       (kwarg_default None s) (kwarg_default None d))"
proof (cases rule: attachment_cases [where a = a and w = w])
  case plain
  from assms show ?thesis
    by (simp add: send_group_message_plain [OF plain] Let_def post_request_def)
next
  case (opened path h)
  from assms show ?thesis
    by (simp add: send_group_message_opened [OF opened] Let_def post_request_def)
next
  case (unopened path msg)
  from assms show ?thesis by (simp add: send_group_message_unopened [OF unopened])
qed

lemma send_emergency_message_request_data:
  assumes "req \<in> set (requests_of (snd (send_emergency_message self w message t u ut r x s d)))"
  shows "r_data req =
     Some (send_emergency_message_payload self message (kwarg_default None t)
       (kwarg_default None u) (kwarg_default None ut) (kwarg_default (Some 30) r)
       (kwarg_default (Some 3600) x) (kwarg_default None s) (kwarg_default None d))"
  using assms by (simp add: send_emergency_message_path Let_def post_request_def)

text \<open>
  Claim C7. For every call of \<open>send_message\<close>, \<open>send_emergency_message\<close> or
  \<open>send_group_message\<close>, the parameter set of the outgoing request has each of the keys
  \<open>title\<close>, \<open>url\<close>, \<open>url_title\<close>, \<open>sound\<close> and \<open>device\<close>, whatever the caller
  supplied: under the key is the caller's string, and the \<^verbatim>\<open>None\<close> placeholder when the
  caller supplied none. A key is never left out.
\<close>

theorem optional_fields_always_present:
  "(\<forall>req\<in>set (requests_of (snd (send_message self w message t u ut p s d a))).
        data_field req ''title'' = Some (sent_text t)
      \<and> data_field req ''url'' = Some (sent_text u)
      \<and> data_field req ''url_title'' = Some (sent_text ut)
      \<and> data_field req ''sound'' = Some (sent_text s)
      \<and> data_field req ''device'' = Some (sent_text d))
   \<and> (\<forall>req\<in>set (requests_of (snd (send_emergency_message self w message t u ut r x s d))).
        data_field req ''title'' = Some (sent_text t)
      \<and> data_field req ''url'' = Some (sent_text u)
      \<and> data_field req ''url_title'' = Some (sent_text ut)
      \<and> data_field req ''sound'' = Some (sent_text s)
      \<and> data_field req ''device'' = Some (sent_text d))
   \<and> (\<forall>req\<in>set (requests_of (snd (send_group_message self w message g t u ut p s d a))).
        data_field req ''title'' = Some (sent_text t)
      \<and> data_field req ''url'' = Some (sent_text u)
      \<and> data_field req ''url_title'' = Some (sent_text ut)
      \<and> data_field req ''sound'' = Some (sent_text s)
      \<and> data_field req ''device'' = Some (sent_text d))"
proof (intro conjI ballI)
  fix req
  assume "req \<in> set (requests_of (snd (send_message self w message t u ut p s d a)))"
  note data = send_message_request_data [OF this]
  show "data_field req ''title'' = Some (sent_text t)"
    by (simp add: data_field_def data send_message_payload_def opt_str_kwarg)
  show "data_field req ''url'' = Some (sent_text u)"
    by (simp add: data_field_def data send_message_payload_def opt_str_kwarg)
  show "data_field req ''url_title'' = Some (sent_text ut)"
    by (simp add: data_field_def data send_message_payload_def opt_str_kwarg)
  show "data_field req ''sound'' = Some (sent_text s)"
    by (simp add: data_field_def data send_message_payload_def opt_str_kwarg)
  show "data_field req ''device'' = Some (sent_text d)"
    by (simp add: data_field_def data send_message_payload_def opt_str_kwarg)
next
  fix req
  assume "req \<in> set (requests_of (snd (send_emergency_message self w message t u ut r x s d)))"
  note data = send_emergency_message_request_data [OF this]
  show "data_field req ''title'' = Some (sent_text t)"
    by (simp add: data_field_def data send_emergency_message_payload_def opt_str_kwarg)
  show "data_field req ''url'' = Some (sent_text u)"
    by (simp add: data_field_def data send_emergency_message_payload_def opt_str_kwarg)
  show "data_field req ''url_title'' = Some (sent_text ut)"
    by (simp add: data_field_def data send_emergency_message_payload_def opt_str_kwarg)
  show "data_field req ''sound'' = Some (sent_text s)"
    by (simp add: data_field_def data send_emergency_message_payload_def opt_str_kwarg)
  show "data_field req ''device'' = Some (sent_text d)"
    by (simp add: data_field_def data send_emergency_message_payload_def opt_str_kwarg)
next
  fix req
  assume "req \<in> set (requests_of (snd (send_group_message self w message g t u ut p s d a)))"
  note data = send_group_message_request_data [OF this]
  show "data_field req ''title'' = Some (sent_text t)"
    by (simp add: data_field_def data send_group_message_payload_def opt_str_kwarg)
  show "data_field req ''url'' = Some (sent_text u)"
    by (simp add: data_field_def data send_group_message_payload_def opt_str_kwarg)
  show "data_field req ''url_title'' = Some (sent_text ut)"
    by (simp add: data_field_def data send_group_message_payload_def opt_str_kwarg)
  show "data_field req ''sound'' = Some (sent_text s)"
    by (simp add: data_field_def data send_group_message_payload_def opt_str_kwarg)
  show "data_field req ''device'' = Some (sent_text d)"
    by (simp add: data_field_def data send_group_message_payload_def opt_str_kwarg)
qed

theorem optional_fields_always_present_witness:
  "map (\<lambda>req. map (data_field req) [''title'', ''url'', ''url_title'', ''sound'', ''device''])
     (requests_of (snd (send_message test_client world_ok ''Test message''
        None None None None None None None))) =
     [[Some PNone, Some PNone, Some PNone, Some PNone, Some PNone]]
   \<and> map (\<lambda>req. map (data_field req) [''title'', ''url'', ''url_title'', ''sound'', ''device''])
     (requests_of (snd (send_emergency_message test_client world_ok ''Emergency message''
        (Some (Some ''Alarm'')) None None None None None (Some None)))) =
     [[Some (PStr ''Alarm''), Some PNone, Some PNone, Some PNone, Some PNone]]
   \<and> map (\<lambda>req. map (data_field req) [''title'', ''url'', ''url_title'', ''sound'', ''device''])
     (requests_of (snd (send_group_message test_client world_ok ''Group message''
        ''test_group_key'' None None None None (Some (Some ''siren'')) None
        (Some (Some ''path/to/file''))))) =
     [[Some PNone, Some PNone, Some PNone, Some (PStr ''siren''), Some PNone]]"
proof -
  obtain r1 where r1: "requests_of (snd (send_message test_client world_ok ''Test message''
      None None None None None None None)) = [r1]"
    using send_message_issues_one by blast
  obtain r2 where r2: "requests_of (snd (send_emergency_message test_client world_ok
      ''Emergency message'' (Some (Some ''Alarm'')) None None None None None (Some None))) = [r2]"
    using send_emergency_message_issues_one by blast
  have "builtin_open world_ok ''path/to/file'' ''rb'' = Inr 3"
    by (simp add: world_ok_def)
  then have "\<exists>r3. requests_of (snd (send_group_message test_client world_ok ''Group message''
      ''test_group_key'' None None None None (Some (Some ''siren'')) None
      (Some (Some ''path/to/file'')))) = [r3]"
    by (simp add: send_group_message_opened [where path = "''path/to/file''" and h = 3]
          kwarg_default_def Let_def)
  then obtain r3 where r3: "requests_of (snd (send_group_message test_client world_ok
      ''Group message'' ''test_group_key'' None None None None (Some (Some ''siren'')) None
      (Some (Some ''path/to/file'')))) = [r3]"
    by blast
  show ?thesis
    using optional_fields_always_present [where self = test_client and w = world_ok
        and message = "''Test message''" and t = None and u = None and ut = None and p = None
        and s = None and d = None and a = None and r = None and x = None
        and g = "''test_group_key''"]
      optional_fields_always_present [where self = test_client and w = world_ok
        and message = "''Emergency message''" and t = "Some (Some ''Alarm'')" and u = None
        and ut = None and p = None and s = None and d = "Some None" and a = None and r = None
        and x = None and g = "''test_group_key''"]
      optional_fields_always_present [where self = test_client and w = world_ok
        and message = "''Group message''" and t = None and u = None and ut = None and p = None
        and s = "Some (Some ''siren'')" and d = None and a = "Some (Some ''path/to/file'')"
        and r = None and x = None and g = "''test_group_key''"]
      r1 r2 r3
    by (simp add: sent_text_def)
qed

text \<open>
  Claim C3. Every call of \<open>send_emergency_message\<close>, whatever its arguments, issues one
  request whose \<open>priority\<close> field is 2: no parameter changes it. The fields \<open>retry\<close> and
  \<open>expire\<close> carry what the caller supplied, and 30 and 3600 when the caller supplied
  nothing.
\<close>

theorem emergency_priority_is_two:
  "(\<exists>req. snd (send_emergency_message self w message t u ut r x s d) = [EvRequest req]
      \<and> data_field req ''priority'' = Some (PInt 2)
      \<and> data_field req ''retry'' = Some (sent_number 30 r)
      \<and> data_field req ''expire'' = Some (sent_number 3600 x))
   \<and> sent_number 30 None = PInt 30
   \<and> sent_number 3600 None = PInt 3600"
proof -
  let ?req = "post_request (api_url self)
      (send_emergency_message_payload self message (kwarg_default None t)
         (kwarg_default None u) (kwarg_default None ut) (kwarg_default (Some 30) r)
         (kwarg_default (Some 3600) x) (kwarg_default None s) (kwarg_default None d))
      None (timeout self)"
  have "snd (send_emergency_message self w message t u ut r x s d) = [EvRequest ?req]"
    by (simp add: send_emergency_message_path Let_def)
  moreover have "data_field ?req ''priority'' = Some (PInt 2)"
    by (simp add: data_field_def post_request_def send_emergency_message_payload_def)
  moreover have "data_field ?req ''retry'' = Some (sent_number 30 r)"
    by (simp add: data_field_def post_request_def send_emergency_message_payload_def
          opt_int_kwarg)
  moreover have "data_field ?req ''expire'' = Some (sent_number 3600 x)"
    by (simp add: data_field_def post_request_def send_emergency_message_payload_def
          opt_int_kwarg)
  moreover have "sent_number 30 None = PInt 30" and "sent_number 3600 None = PInt 3600"
    by (simp_all add: sent_number_def)
  ultimately show ?thesis by blast
qed

text \<open>
  Claim C4. In every request \<open>send_group_message\<close> issues, the \<open>user\<close> field is the
  \<open>group_key\<close> argument and the \<open>token\<close> field is the client's \<open>api_token\<close>. The client's
  stored \<open>user_key\<close> plays no part: the call is the same whatever it is.
\<close>

theorem group_message_user_is_group_key:
  "(\<forall>req\<in>set (requests_of (snd (send_group_message self w message g t u ut p s d a))).
        data_field req ''user'' = Some (PStr g)
      \<and> data_field req ''token'' = Some (PStr (api_token self)))
   \<and> send_group_message (self\<lparr>user_key := k\<rparr>) w message g t u ut p s d a =
       send_group_message self w message g t u ut p s d a"
proof (intro conjI ballI)
  fix req
  assume "req \<in> set (requests_of (snd (send_group_message self w message g t u ut p s d a)))"
  note data = send_group_message_request_data [OF this]
  show "data_field req ''user'' = Some (PStr g)"
    by (simp add: data_field_def data send_group_message_payload_def)
  show "data_field req ''token'' = Some (PStr (api_token self))"
    by (simp add: data_field_def data send_group_message_payload_def)
next
  show "send_group_message (self\<lparr>user_key := k\<rparr>) w message g t u ut p s d a =
       send_group_message self w message g t u ut p s d a"
  proof (cases rule: attachment_cases [where a = a and w = w])
    case plain
    show ?thesis
      by (simp add: send_group_message_plain [OF plain] send_group_message_payload_def)
  next
    case (opened path h)
    show ?thesis
      by (simp add: send_group_message_opened [OF opened] send_group_message_payload_def)
  next
    case (unopened path msg)
    show ?thesis
      by (simp add: send_group_message_unopened [OF unopened])
  qed
qed

theorem group_message_user_is_group_key_witness:
  "map (\<lambda>req. (data_field req ''user'', data_field req ''token''))
     (requests_of (snd (send_group_message test_client world_ok ''Group message''
        ''test_group_key'' None None None None None None None))) =
     [(Some (PStr ''test_group_key''), Some (PStr ''test_api_token''))]
   \<and> user_key test_client = ''test_user_key''"
proof -
  obtain r1 where r1: "requests_of (snd (send_group_message test_client world_ok
      ''Group message'' ''test_group_key'' None None None None None None None)) = [r1]"
    using send_group_message_issues_one by blast
  show ?thesis
    using group_message_user_is_group_key [where self = test_client and w = world_ok
        and message = "''Group message''" and g = "''test_group_key''" and t = None and u = None
        and ut = None and p = None and s = None and d = None and a = None] r1
    by (simp add: test_client_def init_def)
qed

section \<open>Attachments\<close>

text \<open>
  Claim C5, amended. For every call of \<open>send_message\<close> or \<open>send_group_message\<close> with a
  non-empty attachment path, the file at that path is opened once, in binary read mode.
  When the file opens, the call then issues one request, a POST that carries the opened
  file under the field name \<open>attachment\<close>, and then closes the file: one open, one
  close, whatever the transport does with the request. When the file does not open, the
  error of \<^verbatim>\<open>open\<close> is what the call raises, unwrapped, and the call issues no request
  and closes nothing.
\<close>

theorem attachment_opened_sent_and_closed:
  assumes "path \<noteq> []"
  shows
    "(builtin_open w path ''rb'' = Inr h \<longrightarrow>
        (\<exists>req. snd (send_message self w message t u ut p s d (Some (Some path))) =
                 [EvOpen path ''rb'' h, EvRequest req, EvClose h]
             \<and> r_method req = POST \<and> r_files req = Some [(''attachment'', h)])
      \<and> (\<exists>req. snd (send_group_message self w message g t u ut p s d (Some (Some path))) =
                 [EvOpen path ''rb'' h, EvRequest req, EvClose h]
             \<and> r_method req = POST \<and> r_files req = Some [(''attachment'', h)]))
   \<and> (builtin_open w path ''rb'' = Inl msg \<longrightarrow>
        send_message self w message t u ut p s d (Some (Some path)) =
          (Inl (OSError msg), [EvOpenFailed path ''rb''])
      \<and> send_group_message self w message g t u ut p s d (Some (Some path)) =
          (Inl (OSError msg), [EvOpenFailed path ''rb'']))"
proof (intro conjI impI)
  have given: "kwarg_default None (Some (Some path)) = Some path"
    by (simp add: kwarg_default_def)
  {
    assume opens: "builtin_open w path ''rb'' = Inr h"
    show "\<exists>req. snd (send_message self w message t u ut p s d (Some (Some path))) =
                 [EvOpen path ''rb'' h, EvRequest req, EvClose h]
             \<and> r_method req = POST \<and> r_files req = Some [(''attachment'', h)]"
      by (simp add: send_message_opened [OF given assms opens] Let_def post_request_def)
    show "\<exists>req. snd (send_group_message self w message g t u ut p s d (Some (Some path))) =
                 [EvOpen path ''rb'' h, EvRequest req, EvClose h]
             \<and> r_method req = POST \<and> r_files req = Some [(''attachment'', h)]"
      by (simp add: send_group_message_opened [OF given assms opens] Let_def post_request_def)
  }
  {
    assume fails: "builtin_open w path ''rb'' = Inl msg"
    show "send_message self w message t u ut p s d (Some (Some path)) =
          (Inl (OSError msg), [EvOpenFailed path ''rb''])"
      by (rule send_message_unopened [OF given assms fails])
    show "send_group_message self w message g t u ut p s d (Some (Some path)) =
          (Inl (OSError msg), [EvOpenFailed path ''rb''])"
      by (rule send_group_message_unopened [OF given assms fails])
  }
qed

theorem attachment_opened_sent_and_closed_witness:
  "(\<exists>req. snd (send_message test_client world_bad_request ''Test message''
              None None None None None None (Some (Some ''path/to/file''))) =
            [EvOpen ''path/to/file'' ''rb'' 3, EvRequest req, EvClose 3]
          \<and> r_method req = POST \<and> r_files req = Some [(''attachment'', 3)])
   \<and> (\<exists>req. snd (send_group_message test_client world_bad_request ''Test message''
              ''test_group_key'' None None None None None None (Some (Some ''path/to/file''))) =
            [EvOpen ''path/to/file'' ''rb'' 3, EvRequest req, EvClose 3]
          \<and> r_method req = POST \<and> r_files req = Some [(''attachment'', 3)])
   \<and> send_group_message test_client world_no_file ''Test message'' ''test_group_key''
        None None None None None None (Some (Some ''path/to/file'')) =
        (Inl (OSError ''No such file or directory''), [EvOpenFailed ''path/to/file'' ''rb''])"
proof -
  have path: "''path/to/file'' \<noteq> []"
    by simp
  have opens: "builtin_open world_bad_request ''path/to/file'' ''rb'' = Inr 3"
    by (simp add: world_bad_request_def)
  have fails: "builtin_open world_no_file ''path/to/file'' ''rb'' = Inl ''No such file or directory''"
    by (simp add: world_no_file_def)
  show ?thesis
    using attachment_opened_sent_and_closed [OF path, where w = world_bad_request and h = 3
        and self = test_client and message = "''Test message''" and g = "''test_group_key''"
        and t = None and u = None and ut = None and p = None and s = None and d = None]
      attachment_opened_sent_and_closed [OF path, where w = world_no_file
        and msg = "''No such file or directory''"
        and self = test_client and message = "''Test message''" and g = "''test_group_key''"
        and t = None and u = None and ut = None and p = None and s = None and d = None]
      opens fails
    by simp
qed

text \<open>
  Claim C5 as it was stated fails where the attachment cannot be opened: in the world
  without the file, all the call does is one failed \<^verbatim>\<open>open\<close>. No request is sent, and
  no file is closed, since none was opened.
\<close>

theorem missing_attachment_not_sent:
  "snd (send_message test_client world_no_file ''Test message''
          None None None None None None (Some (Some ''path/to/file''))) =
     [EvOpenFailed ''path/to/file'' ''rb'']"
  by (simp add: send_message_unopened [where path = "''path/to/file''"
          and msg = "''No such file or directory''"] kwarg_default_def world_no_file_def)

text \<open>
  Claim C10. An attachment that is the empty string is no attachment: the call is the
  same as the call that leaves the attachment out. It touches no file, and issues one
  POST request that carries the payload and has no \<open>files\<close> part.
\<close>

theorem empty_attachment_is_no_attachment:
  "send_message self w message t u ut p s d (Some (Some '''')) =
     send_message self w message t u ut p s d None
   \<and> (\<exists>req. snd (send_message self w message t u ut p s d (Some (Some ''''))) = [EvRequest req]
         \<and> r_method req = POST \<and> r_files req = None
         \<and> data_field req ''message'' = Some (PStr message))
   \<and> send_group_message self w message g t u ut p s d (Some (Some '''')) =
     send_group_message self w message g t u ut p s d None
   \<and> (\<exists>req. snd (send_group_message self w message g t u ut p s d (Some (Some ''''))) =
           [EvRequest req]
         \<and> r_method req = POST \<and> r_files req = None
         \<and> data_field req ''message'' = Some (PStr message))"
proof -
  have empty: "kwarg_default None (Some (Some '''')) = None
      \<or> kwarg_default None (Some (Some '''')) = Some ([] :: string)"
    by (simp add: kwarg_default_def)
  have absent: "kwarg_default None None = (None :: string option)
      \<or> kwarg_default None None = Some ([] :: string)"
    by (simp add: kwarg_default_def)
  have "send_message self w message t u ut p s d (Some (Some '''')) =
     send_message self w message t u ut p s d None"
    by (simp only: send_message_plain [OF empty] send_message_plain [OF absent])
  moreover have "\<exists>req. snd (send_message self w message t u ut p s d (Some (Some ''''))) =
         [EvRequest req]
       \<and> r_method req = POST \<and> r_files req = None
       \<and> data_field req ''message'' = Some (PStr message)"
    by (simp add: send_message_plain [OF empty] Let_def post_request_def data_field_def
          send_message_payload_def)
  moreover have "send_group_message self w message g t u ut p s d (Some (Some '''')) =
     send_group_message self w message g t u ut p s d None"
    by (simp only: send_group_message_plain [OF empty] send_group_message_plain [OF absent])
  moreover have "\<exists>req. snd (send_group_message self w message g t u ut p s d (Some (Some ''''))) =
         [EvRequest req]
       \<and> r_method req = POST \<and> r_files req = None
       \<and> data_field req ''message'' = Some (PStr message)"
    by (simp add: send_group_message_plain [OF empty] Let_def post_request_def data_field_def
          send_group_message_payload_def)
  ultimately show ?thesis by blast
qed

section \<open>One request for each call\<close>

lemma send_message_request_count:
  "length (requests_of (snd (send_message self w message t u ut p s d a))) =
     (if open_fails w a then 0 else 1)"
proof (cases rule: attachment_cases [where a = a and w = w])
  case plain
  then have "\<not> open_fails w a"
    by (auto simp: open_fails_def)
  then show ?thesis
    by (simp add: send_message_plain [OF plain] Let_def)
next
  case (opened path h)
  then have "\<not> open_fails w a"
    by (simp add: open_fails_def)
  then show ?thesis
    by (simp add: send_message_opened [OF opened] Let_def)
next
  case (unopened path msg)
  then have "open_fails w a"
    by (simp add: open_fails_def)
  then show ?thesis
    by (simp add: send_message_unopened [OF unopened])
qed

lemma send_group_message_request_count:
  "length (requests_of (snd (send_group_message self w message g t u ut p s d a))) =
     (if open_fails w a then 0 else 1)"
proof (cases rule: attachment_cases [where a = a and w = w])
  case plain
  then have "\<not> open_fails w a"
    by (auto simp: open_fails_def)
  then show ?thesis
    by (simp add: send_group_message_plain [OF plain] Let_def)
next
  case (opened path h)
  then have "\<not> open_fails w a"
    by (simp add: open_fails_def)
  then show ?thesis
    by (simp add: send_group_message_opened [OF opened] Let_def)
next
  case (unopened path msg)
  then have "open_fails w a"
    by (simp add: open_fails_def)
  then show ?thesis
    by (simp add: send_group_message_unopened [OF unopened])
qed

text \<open>
  Claim C9, amended. Each call of \<open>send_emergency_message\<close> and of \<open>list_sounds\<close>
  issues exactly one HTTP request, whatever the transport answers or raises: there is no
  retry and no path without a request. Each call of \<open>send_message\<close> and of
  \<open>send_group_message\<close> issues exactly one request too, except where the attachment
  names a file that cannot be opened: that call fails before the request, and issues
  none.
\<close>

theorem one_request_unless_attachment_unopened:
  "length (requests_of (snd (send_message self w message t u ut p s d a))) =
     (if open_fails w a then 0 else 1)
   \<and> length (requests_of (snd (send_emergency_message self w message t u ut r x s d))) = 1
   \<and> length (requests_of (snd (send_group_message self w message g t u ut p s d a))) =
     (if open_fails w a then 0 else 1)
   \<and> length (requests_of (snd (list_sounds self w))) = 1"
  by (simp add: send_message_request_count send_group_message_request_count
        send_emergency_message_path list_sounds_path Let_def)

theorem one_request_unless_attachment_unopened_witness:
  "length (requests_of (snd (send_message test_client world_bad_request ''Test message''
      None None None None None None (Some (Some ''path/to/file''))))) = 1
   \<and> length (requests_of (snd (send_emergency_message test_client world_bad_request
      ''Emergency Test message'' None None None None None None None))) = 1
   \<and> length (requests_of (snd (send_group_message test_client world_bad_request
      ''Group message'' ''test_group_key'' None None None None None None
      (Some (Some ''path/to/file''))))) = 1
   \<and> length (requests_of (snd (list_sounds test_client world_bad_request))) = 1"
proof -
  have "\<not> open_fails world_bad_request (Some (Some ''path/to/file''))"
    by (simp add: open_fails_def kwarg_default_def world_bad_request_def)
  then show ?thesis
    using one_request_unless_attachment_unopened [where self = test_client
        and w = world_bad_request and message = "''Test message''" and t = None and u = None
        and ut = None and p = None and s = None and d = None
        and a = "Some (Some ''path/to/file'')"]
      one_request_unless_attachment_unopened [where self = test_client
        and w = world_bad_request and message = "''Emergency Test message''" and t = None
        and u = None and ut = None and r = None and x = None and s = None and d = None]
      one_request_unless_attachment_unopened [where self = test_client
        and w = world_bad_request and message = "''Group message''" and g = "''test_group_key''"
        and t = None and u = None and ut = None and p = None and s = None and d = None
        and a = "Some (Some ''path/to/file'')"]
    by simp
qed

text \<open>
  Claim C9 as it was stated fails on that path: in the world without the file, the call
  raises the error of \<^verbatim>\<open>open\<close> and the number of requests it has issued is not one.
\<close>

theorem missing_attachment_zero_requests:
  "fst (send_message test_client world_no_file ''Test message''
          None None None None None None (Some (Some ''path/to/file''))) =
     Inl (OSError ''No such file or directory'')
   \<and> length (requests_of (snd (send_message test_client world_no_file ''Test message''
          None None None None None None (Some (Some ''path/to/file''))))) \<noteq> 1"
  by (simp add: send_message_unopened [where path = "''path/to/file''"
          and msg = "''No such file or directory''"] kwarg_default_def world_no_file_def)

section \<open>Listing the sounds\<close>

text \<open>
  Claim C8. Every call of \<open>list_sounds\<close> makes one GET request to
  \<^verbatim>\<open>https://api.pushover.net/1/sounds.json\<close> whose only parameter is \<open>token\<close>, the
  client's \<open>api_token\<close>; the request has no \<open>data\<close> and no \<open>files\<close>, so no body, and
  nothing else happens. The call does not depend on the client's \<open>user_key\<close>: it is not
  transmitted.
\<close>

theorem list_sounds_get_token_only:
  "snd (list_sounds self w) =
     [EvRequest \<lparr>r_method = GET, r_url = ''https://api.pushover.net/1/sounds.json'',
                 r_params = Some [(''token'', PStr (api_token self))],
                 r_data = None, r_files = None, r_timeout = timeout self\<rparr>]
   \<and> list_sounds (self\<lparr>user_key := k\<rparr>) w = list_sounds self w"
  by (simp add: list_sounds_def requests_get_def get_request_def Let_def)

end
